theory Spec2Isabelle
  imports Main "HOL-Library.Word" "HOL-Library.Multiset"
begin

section \<open>Machine types\<close>

text \<open>
  \<^verbatim>\<open>std::size_t\<close> is an unsigned 64-bit integer on the platforms the server
  targets: addition and subtraction wrap around.  A private C++ member \<^verbatim>\<open>name_\<close>
  is written \<open>name'\<close> here, since a name may not end in an underscore.
\<close>

type_synonym size_t = "64 word"

section \<open>The counter primitives\<close>

text \<open>
  Modelled from the spec: \<^verbatim>\<open>concurrent::StripedCounter\<close> is included by both headers
  but is not among the sources.  The spec describes it as a fixed-size array of
  independent signed accumulators whose logical value is the sum over all slots; a read
  that races with writes may see a negative sum for a counter that is logically
  non-negative.  The accumulators are taken as 64-bit two's complement integers here;
  a value of this type is the array as one read sees it.
\<close>

record StripedCounter =
  shards :: "64 word list"

text \<open>
  Modelled from the spec: \<^verbatim>\<open>Read() -> signed total\<close>, the sum of all shards read as a
  signed 64-bit integer.
\<close>

definition Read :: "StripedCounter \<Rightarrow> int" where
  "Read c = sint (sum_list (shards c))"

text \<open>
  The integral conversion of C++ from a signed value to \<^verbatim>\<open>std::size_t\<close>: the value
  modulo \<open>2 ^ 64\<close>.  For a 64-bit signed total the conversion keeps the 64 bits, so it
  makes no difference to what is stored whether \<^verbatim>\<open>Read\<close> returns the total as a signed
  integer or as the unsigned integer with the same bits.
\<close>

definition size_t_of_signed :: "int \<Rightarrow> size_t" where
  "size_t_of_signed i = word_of_int i"

text \<open>
  Modelled from the spec: \<^verbatim>\<open>NonNegativeRead() -> unsigned total\<close>, the same as
  \<^verbatim>\<open>Read\<close>, clamped to zero when negative.
\<close>

definition NonNegativeRead :: "StripedCounter \<Rightarrow> size_t" where
  "NonNegativeRead c = (if Read c < 0 then 0 else size_t_of_signed (Read c))"

text \<open>
  Modelled from the spec: \<^verbatim>\<open>Add(delta)\<close> applies \<^verbatim>\<open>delta\<close> to one shard, the one
  selected by the writer's execution context, given here as the slot number \<open>i\<close>
  (reduced modulo the number of shards).
\<close>

definition Add :: "nat \<Rightarrow> 64 word \<Rightarrow> StripedCounter \<Rightarrow> StripedCounter" where
  "Add i delta c =
     (if shards c = [] then c
      else c\<lparr>shards := (shards c)[i mod length (shards c) :=
                 shards c ! (i mod length (shards c)) + delta]\<rparr>)"

text \<open>
  Modelled from the spec: \<^verbatim>\<open>utils::statistics::StripedRateCounter\<close>, the
  rate-windowed variant, is not among the sources either.  The snapshot constructors
  read only the \<^verbatim>\<open>value\<close> member of what \<^verbatim>\<open>Load()\<close> returns, so \<open>Rate\<close> carries
  that member alone.
\<close>

record Rate =
  rate_value :: size_t

record StripedRateCounter =
  rate_shards :: "64 word list"

text \<open>
  Modelled from the spec: \<^verbatim>\<open>Load() -> {value, window}\<close>; the value is the sum of the
  shards, as for the plain counter.
\<close>

definition Load :: "StripedRateCounter \<Rightarrow> Rate" where
  "Load c = \<lparr>rate_value = sum_list (rate_shards c)\<rparr>"

section \<open>server/net/stats.hpp: the counters of a connection and of a listener\<close>

text \<open>\<^verbatim>\<open>struct Http2Stats\<close>, \<^verbatim>\<open>struct ParserStats\<close> and \<^verbatim>\<open>struct Stats\<close>.  The
  three \<^verbatim>\<open>std::atomic<size_t>\<close> members of \<^verbatim>\<open>Stats\<close> are the values their
  \<^verbatim>\<open>load()\<close> returns.  Several members have the name of a member of the snapshot
  types below; they are told apart by the name of the structure, as in
  \<open>Stats.active_request_count\<close>.\<close>

record Http2Stats =
  streams_count' :: StripedRateCounter
  streams_parse_error' :: StripedRateCounter
  streams_close' :: StripedRateCounter
  reset_streams' :: StripedRateCounter
  goaway_streams' :: StripedRateCounter

record ParserStats =
  parsing_request_count :: StripedCounter
  http2_stats :: Http2Stats

record Stats =
  active_connections :: size_t
  connections_created :: size_t
  connections_closed :: size_t
  parser_stats :: ParserStats
  active_request_count :: StripedCounter
  requests_processed_count :: StripedCounter

section \<open>server/net/stats.hpp: aggregation snapshots\<close>

text \<open>\<^verbatim>\<open>struct ParserStatsAggregation\<close>: six \<^verbatim>\<open>std::size_t\<close> fields, all zero by default.\<close>

record ParserStatsAggregation =
  parsing_request_count :: size_t
  streams_count :: size_t
  streams_parse_error :: size_t
  streams_close :: size_t
  reset_streams :: size_t
  goaway_streams :: size_t

text \<open>\<^verbatim>\<open>ParserStatsAggregation() = default\<close>.\<close>

definition ParserStatsAggregation_default :: ParserStatsAggregation where
  "ParserStatsAggregation_default =
     \<lparr>parsing_request_count = 0, streams_count = 0, streams_parse_error = 0,
      streams_close = 0, reset_streams = 0, goaway_streams = 0\<rparr>"

text \<open>
  \<^verbatim>\<open>ParserStatsAggregation::operator+=\<close>: the first argument is \<^verbatim>\<open>*this\<close>, the
  result is \<^verbatim>\<open>*this\<close> after the six compound additions.
\<close>

definition ParserStatsAggregation_add ::
  "ParserStatsAggregation \<Rightarrow> ParserStatsAggregation \<Rightarrow> ParserStatsAggregation" where
  "ParserStatsAggregation_add this other =
     \<lparr>parsing_request_count = parsing_request_count this + parsing_request_count other,
      streams_count = streams_count this + streams_count other,
      streams_parse_error = streams_parse_error this + streams_parse_error other,
      streams_close = streams_close this + streams_close other,
      reset_streams = reset_streams this + reset_streams other,
      goaway_streams = goaway_streams this + goaway_streams other\<rparr>"

text \<open>\<^verbatim>\<open>struct StatsAggregation\<close>.\<close>

record StatsAggregation =
  active_connections :: size_t
  connections_created :: size_t
  connections_closed :: size_t
  parser_stats :: ParserStatsAggregation
  active_request_count :: size_t
  requests_processed_count :: size_t

text \<open>\<^verbatim>\<open>StatsAggregation() = default\<close>.\<close>

definition StatsAggregation_default :: StatsAggregation where
  "StatsAggregation_default =
     \<lparr>active_connections = 0, connections_created = 0, connections_closed = 0,
      parser_stats = ParserStatsAggregation_default,
      active_request_count = 0, requests_processed_count = 0\<rparr>"

text \<open>\<^verbatim>\<open>StatsAggregation::operator+=\<close>, with the nested merge of \<^verbatim>\<open>parser_stats\<close>.\<close>

definition StatsAggregation_add ::
  "StatsAggregation \<Rightarrow> StatsAggregation \<Rightarrow> StatsAggregation" where
  "StatsAggregation_add this other =
     \<lparr>active_connections = active_connections this + active_connections other,
      connections_created = connections_created this + connections_created other,
      connections_closed = connections_closed this + connections_closed other,
      parser_stats = ParserStatsAggregation_add (parser_stats this) (parser_stats other),
      active_request_count = active_request_count this + active_request_count other,
      requests_processed_count =
        requests_processed_count this + requests_processed_count other\<rparr>"

text \<open>
  \<^verbatim>\<open>explicit ParserStatsAggregation(const ParserStats& stats)\<close>: the parsing counter
  is taken with \<^verbatim>\<open>NonNegativeRead()\<close>, the five HTTP/2 counters with
  \<^verbatim>\<open>Load().value\<close>.
\<close>

definition ParserStatsAggregation_of :: "ParserStats \<Rightarrow> ParserStatsAggregation" where
  "ParserStatsAggregation_of stats =
     \<lparr>ParserStatsAggregation.parsing_request_count =
        NonNegativeRead (ParserStats.parsing_request_count stats),
      streams_count = rate_value (Load (streams_count' (http2_stats stats))),
      streams_parse_error = rate_value (Load (streams_parse_error' (http2_stats stats))),
      streams_close = rate_value (Load (streams_close' (http2_stats stats))),
      reset_streams = rate_value (Load (reset_streams' (http2_stats stats))),
      goaway_streams = rate_value (Load (goaway_streams' (http2_stats stats)))\<rparr>"

text \<open>
  \<^verbatim>\<open>explicit StatsAggregation(const Stats& stats)\<close>: \<^verbatim>\<open>active_request_count\<close> is
  initialised from \<^verbatim>\<open>NonNegativeRead()\<close>, \<^verbatim>\<open>requests_processed_count\<close> from
  \<^verbatim>\<open>Read()\<close>, whose signed total is converted to the \<^verbatim>\<open>std::size_t\<close> member.
\<close>

definition StatsAggregation_of :: "Stats \<Rightarrow> StatsAggregation" where
  "StatsAggregation_of stats =
     \<lparr>StatsAggregation.active_connections = Stats.active_connections stats,
      StatsAggregation.connections_created = Stats.connections_created stats,
      StatsAggregation.connections_closed = Stats.connections_closed stats,
      StatsAggregation.parser_stats = ParserStatsAggregation_of (Stats.parser_stats stats),
      StatsAggregation.active_request_count =
        NonNegativeRead (Stats.active_request_count stats),
      StatsAggregation.requests_processed_count =
        size_t_of_signed (Read (Stats.requests_processed_count stats))\<rparr>"

text \<open>
  Merging a list of snapshots the way a report does it: start from a
  default-constructed total and apply \<^verbatim>\<open>operator+=\<close> with the snapshots one after the
  other, in the order of the list.  (The loop belongs to the callers of the header;
  it is written here to speak about orders of merging.)
\<close>

definition merge_all :: "StatsAggregation list \<Rightarrow> StatsAggregation" where
  "merge_all xs = foldl StatsAggregation_add StatsAggregation_default xs"

text \<open>
  A view of the counters of one connection as a racing reader can see it: the shard
  holding two decrements of the active counter was read after they happened, the shard
  holding the matching increments before.
\<close>

definition Http2Stats_zero :: Http2Stats where
  "Http2Stats_zero =
     \<lparr>streams_count' = \<lparr>rate_shards = [0, 0]\<rparr>,
      streams_parse_error' = \<lparr>rate_shards = [0, 0]\<rparr>,
      streams_close' = \<lparr>rate_shards = [0, 0]\<rparr>,
      reset_streams' = \<lparr>rate_shards = [0, 0]\<rparr>,
      goaway_streams' = \<lparr>rate_shards = [0, 0]\<rparr>\<rparr>"

definition Stats_racing :: Stats where
  "Stats_racing =
     \<lparr>Stats.active_connections = 1, Stats.connections_created = 1,
      Stats.connections_closed = 0,
      Stats.parser_stats =
        \<lparr>ParserStats.parsing_request_count = \<lparr>shards = [0, 0]\<rparr>,
         http2_stats = Http2Stats_zero\<rparr>,
      Stats.active_request_count = \<lparr>shards = [1, - 2]\<rparr>,
      Stats.requests_processed_count = \<lparr>shards = [3, - 5]\<rparr>\<rparr>"

section \<open>server/request/response_base.hpp: the accounter of response data\<close>

text \<open>
  A \<^verbatim>\<open>std::chrono::steady_clock::time_point\<close> is a number of clock ticks.
\<close>

type_synonym time_point = int

text \<open>
  \<^verbatim>\<open>class ResponseDataAccounter\<close>: the two \<^verbatim>\<open>std::atomic<size_t>\<close> members are the
  values they hold, the two striped counters are as above.
\<close>

record ResponseDataAccounter =
  current' :: size_t
  max' :: size_t
  count' :: StripedCounter
  time_sum' :: StripedCounter

text \<open>
  A freshly constructed accounter, from the default member initialisers:
  \<^verbatim>\<open>current_{0}\<close> and \<^verbatim>\<open>max_{std::numeric_limits<size_t>::max()}\<close>, the word with
  all 64 bits set, which is \<open>- 1\<close>.  The two counters start with \<open>n\<close> shards of zero
  (the number of shards belongs to the counter, which is not among the sources).
\<close>

definition ResponseDataAccounter_init :: "nat \<Rightarrow> ResponseDataAccounter" where
  "ResponseDataAccounter_init n =
     \<lparr>current' = 0, max' = - 1,
      count' = \<lparr>shards = replicate n 0\<rparr>, time_sum' = \<lparr>shards = replicate n 0\<rparr>\<rparr>"

text \<open>\<^verbatim>\<open>size_t GetCurrentLevel() const { return current_; }\<close>\<close>

definition GetCurrentLevel :: "ResponseDataAccounter \<Rightarrow> size_t" where
  "GetCurrentLevel acc = current' acc"

text \<open>\<^verbatim>\<open>size_t GetMaxLevel() const { return max_; }\<close>\<close>

definition GetMaxLevel :: "ResponseDataAccounter \<Rightarrow> size_t" where
  "GetMaxLevel acc = max' acc"

text \<open>\<^verbatim>\<open>void SetMaxLevel(size_t size) { max_ = size; }\<close>\<close>

definition SetMaxLevel :: "size_t \<Rightarrow> ResponseDataAccounter \<Rightarrow> ResponseDataAccounter" where
  "SetMaxLevel sz acc = acc\<lparr>max' := sz\<rparr>"

text \<open>
  What a call reads from its surroundings: the steady clock, and the slot of the
  striped counters that belongs to the calling thread.
\<close>

record exec_context =
  now :: time_point
  shard :: nat

text \<open>
  Modelled from the spec: \<^verbatim>\<open>StartRequest\<close> is declared in the header and defined in a
  file that is not among the sources.  The spec: it adds \<^verbatim>\<open>size\<close> to the current-bytes
  total.  The total is the \<^verbatim>\<open>std::atomic<size_t>\<close> member of the header, so the
  addition wraps.
\<close>

definition StartRequest ::
  "size_t \<Rightarrow> time_point \<Rightarrow> ResponseDataAccounter \<Rightarrow> ResponseDataAccounter" where
  "StartRequest sz create_time acc = acc\<lparr>current' := current' acc + sz\<rparr>"

text \<open>
  Modelled from the spec: \<^verbatim>\<open>StopRequest\<close> is declared in the header only, too.  The
  spec: it subtracts \<^verbatim>\<open>size\<close> from the current-bytes total, adds
  \<^verbatim>\<open>now - createTime\<close> to the time-sum counter and increments the count counter.
\<close>

definition StopRequest ::
  "exec_context \<Rightarrow> size_t \<Rightarrow> time_point \<Rightarrow> ResponseDataAccounter \<Rightarrow> ResponseDataAccounter" where
  "StopRequest ctx sz create_time acc =
     acc\<lparr>current' := current' acc - sz,
         time_sum' := Add (shard ctx) (word_of_int (now ctx - create_time)) (time_sum' acc),
         count' := Add (shard ctx) 1 (count' acc)\<rparr>"

text \<open>
  Modelled from the spec: \<^verbatim>\<open>bool ResponseBase::IsLimitReached() const\<close> is declared in
  the header only.  The spec: true iff the current outstanding bytes exceed the
  configured ceiling, that is, exactly when \<^verbatim>\<open>GetCurrentLevel() > GetMaxLevel()\<close>.  The
  argument is the accounter the response refers to.
\<close>

definition IsLimitReached :: "ResponseDataAccounter \<Rightarrow> bool" where
  "IsLimitReached acc = (GetCurrentLevel acc > GetMaxLevel acc)"

subsection \<open>Sequences of calls\<close>

text \<open>
  The calls that request-processing tasks make on the shared accounter, in the order
  in which they take effect.
\<close>

datatype accounter_call =
  Start size_t time_point
| Stop exec_context size_t time_point

fun apply_call :: "ResponseDataAccounter \<Rightarrow> accounter_call \<Rightarrow> ResponseDataAccounter" where
  "apply_call acc (Start sz create_time) = StartRequest sz create_time acc"
| "apply_call acc (Stop ctx sz create_time) = StopRequest ctx sz create_time acc"

definition run_calls :: "accounter_call list \<Rightarrow> ResponseDataAccounter \<Rightarrow> ResponseDataAccounter" where
  "run_calls calls acc = foldl apply_call acc calls"

text \<open>The arguments of the starts and of the stops of a sequence of calls.\<close>

fun started :: "accounter_call list \<Rightarrow> (size_t \<times> time_point) list" where
  "started [] = []"
| "started (Start sz create_time # calls) = (sz, create_time) # started calls"
| "started (Stop ctx sz create_time # calls) = started calls"

fun stopped :: "accounter_call list \<Rightarrow> (size_t \<times> time_point) list" where
  "stopped [] = []"
| "stopped (Start sz create_time # calls) = stopped calls"
| "stopped (Stop ctx sz create_time # calls) = (sz, create_time) # stopped calls"

text \<open>
  Every start is matched by a stop with the same size and creation time, and every stop
  matches a start: the two collections of arguments are equal as multisets.  Nothing is
  asked of the order of the calls.
\<close>

definition all_matched :: "accounter_call list \<Rightarrow> bool" where
  "all_matched calls = (mset (started calls) = mset (stopped calls))"

subsection \<open>The guard of a response\<close>

text \<open>
  \<^verbatim>\<open>class ResponseBase::Guard\<close>: the creation time and the size; the reference
  \<^verbatim>\<open>accounter_\<close> is to the one shared accounter, which is passed to the functions.
\<close>

record Guard =
  create_time' :: time_point
  size' :: size_t

text \<open>
  The constructor stores its arguments and calls
  \<^verbatim>\<open>accounter_.StartRequest(size_, create_time_)\<close>.
\<close>

definition Guard_ctor ::
  "time_point \<Rightarrow> size_t \<Rightarrow> ResponseDataAccounter \<Rightarrow> Guard \<times> ResponseDataAccounter" where
  "Guard_ctor create_time sz acc =
     (let g = \<lparr>Guard.create_time' = create_time, size' = sz\<rparr>
      in (g, StartRequest (size' g) (Guard.create_time' g) acc))"

text \<open>\<^verbatim>\<open>~Guard() { accounter_.StopRequest(size_, create_time_); }\<close>\<close>

definition Guard_dtor :: "exec_context \<Rightarrow> Guard \<Rightarrow> ResponseDataAccounter \<Rightarrow> ResponseDataAccounter" where
  "Guard_dtor ctx g acc = StopRequest ctx (size' g) (Guard.create_time' g) acc"

subsection \<open>The response\<close>

text \<open>
  The data members of \<^verbatim>\<open>class ResponseBase\<close>, in the order of the header; the
  reference \<^verbatim>\<open>accounter_\<close> is again to the shared accounter.  A \<^verbatim>\<open>std::string\<close> is
  its sequence of bytes.  The constructors, the destructor, \<^verbatim>\<open>SetData\<close>, \<^verbatim>\<open>SetReady\<close>,
  \<^verbatim>\<open>SetSent\<close>, \<^verbatim>\<open>SetSendFailed\<close> and \<^verbatim>\<open>SetStreamId\<close> are declared in the header and
  defined elsewhere; they are not modelled.
\<close>

record ResponseBase =
  guard' :: "Guard option"
  data' :: string
  create_time' :: time_point
  ready_time' :: time_point
  sent_time' :: time_point
  bytes_sent' :: size_t
  is_ready' :: bool
  is_sent' :: bool
  stream_id' :: "32 word option"

text \<open>\<^verbatim>\<open>const std::string& GetData() const { return data_; }\<close>\<close>

definition GetData :: "ResponseBase \<Rightarrow> string" where
  "GetData r = data' r"

text \<open>
  A reference to a \<^verbatim>\<open>std::string\<close> that lives inside a response.  The payload
  \<^verbatim>\<open>data_\<close> is the only string member, so there is one such reference; what it denotes
  is read from the object at the time of the read, not copied when the reference is made.
\<close>

datatype string_ref = Ref_data'

fun deref :: "ResponseBase \<Rightarrow> string_ref \<Rightarrow> string" where
  "deref r Ref_data' = data' r"

text \<open>
  \<^verbatim>\<open>std::string&& MoveData() { return std::move(data_); }\<close>

  \<^verbatim>\<open>std::move(data_)\<close> is the cast \<^verbatim>\<open>static_cast<std::string&&>(data_)\<close>, and the
  return type is a reference: the method hands out an rvalue reference that aliases the
  member \<^verbatim>\<open>data_\<close>, for the caller to move from.  The result is that reference and the
  object as the method leaves it.
\<close>

definition MoveData :: "ResponseBase \<Rightarrow> string_ref \<times> ResponseBase" where
  "MoveData r = (Ref_data', r)"

text \<open>
  The move constructor of \<^verbatim>\<open>std::string\<close>, applied to an rvalue reference into a
  response: the new string takes over the bytes, and the string the reference aliases,
  which is the member of the response, is left empty.  (This is the C++ library, not
  code of the repository.  The standard asks only for a valid state of the moved-from
  string; the implementations leave it empty.)
\<close>

fun string_move_ctor :: "string_ref \<Rightarrow> ResponseBase \<Rightarrow> string \<times> ResponseBase" where
  "string_move_ctor Ref_data' r = (data' r, r\<lparr>data' := []\<rparr>)"

text \<open>
  The caller that consumes the payload, \<^verbatim>\<open>std::string taken = response.MoveData();\<close>:
  the call, then the move construction of \<^verbatim>\<open>taken\<close> from the returned reference.  The
  result is \<^verbatim>\<open>taken\<close> and the response afterwards.
\<close>

definition take_data :: "ResponseBase \<Rightarrow> string \<times> ResponseBase" where
  "take_data r = (case MoveData r of (ref, r') \<Rightarrow> string_move_ctor ref r')"

text \<open>The other accessors defined in the header.\<close>

definition IsReady :: "ResponseBase \<Rightarrow> bool" where
  "IsReady r = is_ready' r"

definition IsSent :: "ResponseBase \<Rightarrow> bool" where
  "IsSent r = is_sent' r"

definition BytesSent :: "ResponseBase \<Rightarrow> size_t" where
  "BytesSent r = bytes_sent' r"

definition ReadyTime :: "ResponseBase \<Rightarrow> time_point" where
  "ReadyTime r = ready_time' r"

definition SentTime :: "ResponseBase \<Rightarrow> time_point" where
  "SentTime r = sent_time' r"

definition GetStreamId :: "ResponseBase \<Rightarrow> 32 word option" where
  "GetStreamId r = stream_id' r"

subsection \<open>Concrete inputs\<close>

text \<open>
  Six requests: the three of the scenario of the spec (100, 200 and 50 bytes), and
  three whose sizes add up to more than \<open>2 ^ 64\<close>, so that the total wraps while they
  are outstanding.  The stops come in another order than the starts.
\<close>

definition calls_example :: "accounter_call list" where
  "calls_example =
     [Start 100 0, Start 200 0, Start 50 0,
      Stop \<lparr>now = 10, shard = 0\<rparr> 100 0,
      Start (- 1) 12, Start (- 1) 13, Start 7 14,
      Stop \<lparr>now = 20, shard = 1\<rparr> 7 14,
      Stop \<lparr>now = 20, shard = 1\<rparr> 200 0,
      Stop \<lparr>now = 25, shard = 0\<rparr> (- 1) 13,
      Stop \<lparr>now = 30, shard = 2\<rparr> 50 0,
      Stop \<lparr>now = 31, shard = 0\<rparr> (- 1) 12]"

text \<open>A response that holds the three bytes \<^verbatim>\<open>abc\<close>, accounted with its guard.\<close>

definition ResponseBase_example :: ResponseBase where
  "ResponseBase_example =
     \<lparr>guard' = Some \<lparr>Guard.create_time' = 5, size' = 3\<rparr>,
      data' = ''abc'',
      create_time' = 5, ready_time' = 0, sent_time' = 0,
      bytes_sent' = 0, is_ready' = False, is_sent' = False,
      stream_id' = None\<rparr>"

section \<open>Merging snapshots\<close>

lemma ParserStatsAggregation_add_commute:
  "ParserStatsAggregation_add a b = ParserStatsAggregation_add b a"
  by (simp add: ParserStatsAggregation_add_def add.commute)

lemma ParserStatsAggregation_add_assoc:
  "ParserStatsAggregation_add (ParserStatsAggregation_add a b) c =
   ParserStatsAggregation_add a (ParserStatsAggregation_add b c)"
  by (simp add: ParserStatsAggregation_add_def add.assoc)

lemma ParserStatsAggregation_add_default:
  "ParserStatsAggregation_add ParserStatsAggregation_default a = a"
  by (simp add: ParserStatsAggregation_add_def ParserStatsAggregation_default_def)

lemma StatsAggregation_add_commute:
  "StatsAggregation_add a b = StatsAggregation_add b a"
  by (simp add: StatsAggregation_add_def add.commute ParserStatsAggregation_add_commute)

lemma StatsAggregation_add_assoc:
  "StatsAggregation_add (StatsAggregation_add a b) c =
   StatsAggregation_add a (StatsAggregation_add b c)"
  by (simp add: StatsAggregation_add_def add.assoc ParserStatsAggregation_add_assoc)

lemma StatsAggregation_add_default:
  "StatsAggregation_add StatsAggregation_default a = a"
  by (simp add: StatsAggregation_add_def StatsAggregation_default_def
      ParserStatsAggregation_add_default)

lemma StatsAggregation_add_right_commute:
  "StatsAggregation_add (StatsAggregation_add s a) b =
   StatsAggregation_add (StatsAggregation_add s b) a"
proof -
  have "StatsAggregation_add (StatsAggregation_add s a) b =
        StatsAggregation_add s (StatsAggregation_add a b)"
    by (rule StatsAggregation_add_assoc)
  also have "\<dots> = StatsAggregation_add s (StatsAggregation_add b a)"
    by (simp add: StatsAggregation_add_commute [of a b])
  also have "\<dots> = StatsAggregation_add (StatsAggregation_add s b) a"
    by (rule StatsAggregation_add_assoc [symmetric])
  finally show ?thesis .
qed

text \<open>
  Any number of snapshots can be merged in any order: two lists with the same
  snapshots, each as often in the one as in the other, give the same total.
\<close>

lemma merge_all_any_order:
  assumes "mset xs = mset ys"
  shows "merge_all xs = merge_all ys"
proof -
  have "fold (\<lambda>x s. StatsAggregation_add s x) xs = fold (\<lambda>x s. StatsAggregation_add s x) ys"
    using _ assms
  proof (rule fold_multiset_equiv)
    fix x y
    show "(\<lambda>s. StatsAggregation_add s x) \<circ> (\<lambda>s. StatsAggregation_add s y) =
          (\<lambda>s. StatsAggregation_add s y) \<circ> (\<lambda>s. StatsAggregation_add s x)"
      by (rule ext) (simp add: StatsAggregation_add_right_commute [of _ y x])
  qed
  then show ?thesis
    by (simp add: merge_all_def foldl_conv_fold)
qed

lemma merge_all_3:
  "merge_all [a, b, c] = StatsAggregation_add (StatsAggregation_add a b) c"
  by (simp add: merge_all_def StatsAggregation_add_default)

lemma merge_all_1: "merge_all [a] = a"
  by (simp add: merge_all_def StatsAggregation_add_default)

lemma merge_all_2: "merge_all [a, b] = StatsAggregation_add a b"
  by (simp add: merge_all_def StatsAggregation_add_default)

text \<open>
  C5.  The merge \<^verbatim>\<open>operator+=\<close> of aggregation snapshots is commutative and
  associative, in every field and in the nested parser fields, and so is the nested
  merge itself; merging three snapshots into a default-constructed total in the order
  [A, B, C], in the order [C, A, B], or pairwise (A with B, then the result with C; or
  B with C first) gives the same snapshot.
\<close>

theorem StatsAggregation_merge_comm_assoc:
  "StatsAggregation_add A B = StatsAggregation_add B A
   \<and> StatsAggregation_add (StatsAggregation_add A B) C =
       StatsAggregation_add A (StatsAggregation_add B C)
   \<and> ParserStatsAggregation_add (parser_stats A) (parser_stats B) =
       ParserStatsAggregation_add (parser_stats B) (parser_stats A)
   \<and> parser_stats (StatsAggregation_add (StatsAggregation_add A B) C) =
       ParserStatsAggregation_add (parser_stats A)
         (ParserStatsAggregation_add (parser_stats B) (parser_stats C))
   \<and> merge_all [A, B, C] = merge_all [C, A, B]
   \<and> merge_all [A, B, C] = StatsAggregation_add (merge_all [A, B]) (merge_all [C])
   \<and> merge_all [A, B, C] = StatsAggregation_add (merge_all [A]) (merge_all [B, C])"
proof -
  have comm: "StatsAggregation_add A B = StatsAggregation_add B A"
    by (rule StatsAggregation_add_commute)
  have assoc: "StatsAggregation_add (StatsAggregation_add A B) C =
               StatsAggregation_add A (StatsAggregation_add B C)"
    by (rule StatsAggregation_add_assoc)
  have pcomm: "ParserStatsAggregation_add (parser_stats A) (parser_stats B) =
               ParserStatsAggregation_add (parser_stats B) (parser_stats A)"
    by (rule ParserStatsAggregation_add_commute)
  have nested: "parser_stats (StatsAggregation_add (StatsAggregation_add A B) C) =
                ParserStatsAggregation_add (parser_stats A)
                  (ParserStatsAggregation_add (parser_stats B) (parser_stats C))"
    by (simp add: StatsAggregation_add_def ParserStatsAggregation_add_assoc)
  have "StatsAggregation_add (StatsAggregation_add C A) B =
        StatsAggregation_add C (StatsAggregation_add A B)"
    by (rule StatsAggregation_add_assoc)
  also have "\<dots> = StatsAggregation_add (StatsAggregation_add A B) C"
    by (rule StatsAggregation_add_commute)
  finally have rot: "merge_all [A, B, C] = merge_all [C, A, B]"
    by (simp add: merge_all_3)
  have pair1: "merge_all [A, B, C] = StatsAggregation_add (merge_all [A, B]) (merge_all [C])"
    by (simp add: merge_all_3 merge_all_2 merge_all_1)
  have pair2: "merge_all [A, B, C] = StatsAggregation_add (merge_all [A]) (merge_all [B, C])"
    by (simp add: merge_all_3 merge_all_2 merge_all_1 StatsAggregation_add_assoc)
  from comm assoc pcomm nested rot pair1 pair2 show ?thesis
    by blast
qed

section \<open>Taking a snapshot of the request counters\<close>

lemma Read_bounds: "- (2 ^ 63) \<le> Read c \<and> Read c < 2 ^ 63"
  using sint_ge [of "sum_list (shards c)"] sint_lt [of "sum_list (shards c)"]
  by (simp add: Read_def)

lemma uint_NonNegativeRead: "uint (NonNegativeRead c) = max 0 (Read c)"
proof (cases "Read c < 0")
  case True
  then show ?thesis by (simp add: NonNegativeRead_def)
next
  case False
  with Read_bounds [of c] have "0 \<le> Read c" "Read c < 2 ^ 64" by simp_all
  then have "uint (word_of_int (Read c) :: size_t) = Read c"
    by (simp add: uint_word_of_int take_bit_int_eq_self)
  with False show ?thesis by (simp add: NonNegativeRead_def size_t_of_signed_def)
qed

lemma uint_word_of_int_negative:
  fixes r :: int
  assumes "r < 0" and "- (2 ^ 63) \<le> r"
  shows "uint (word_of_int r :: size_t) = 2 ^ 64 + r"
proof -
  from assms have b: "0 \<le> r + 2 ^ 64" "r + 2 ^ 64 < 2 ^ 64"
    by simp_all
  have "r mod 2 ^ 64 = (r + 2 ^ 64) mod 2 ^ 64"
    by (simp only: mod_add_self2)
  also from b have "\<dots> = r + 2 ^ 64"
    by (rule mod_pos_pos_trivial)
  finally show ?thesis
    by (simp add: uint_word_of_int take_bit_eq_mod)
qed

lemma uint_size_t_of_signed_negative:
  assumes "Read c < 0"
  shows "uint (size_t_of_signed (Read c)) = 2 ^ 64 + Read c"
  using assms Read_bounds [of c]
  by (simp add: size_t_of_signed_def uint_word_of_int_negative)

text \<open>
  C10.  The snapshot constructor treats the two striped request counters differently.
  \<^verbatim>\<open>active_request_count\<close> is read with \<^verbatim>\<open>NonNegativeRead\<close>: the snapshot holds the
  signed sum clamped at zero, so it is zero whenever the sum is negative.
  \<^verbatim>\<open>requests_processed_count\<close> is the signed \<^verbatim>\<open>Read\<close> converted to the unsigned field:
  a negative sum \<open>r\<close> is not clamped but becomes \<open>2 ^ 64 + r\<close>, at least \<open>2 ^ 63\<close>.
\<close>

theorem StatsAggregation_of_request_counters:
  "uint (StatsAggregation.active_request_count (StatsAggregation_of stats)) =
     max 0 (Read (Stats.active_request_count stats))
   \<and> (Read (Stats.active_request_count stats) < 0 \<longrightarrow>
        StatsAggregation.active_request_count (StatsAggregation_of stats) = 0)
   \<and> StatsAggregation.requests_processed_count (StatsAggregation_of stats) =
        size_t_of_signed (Read (Stats.requests_processed_count stats))
   \<and> (Read (Stats.requests_processed_count stats) < 0 \<longrightarrow>
        uint (StatsAggregation.requests_processed_count (StatsAggregation_of stats)) =
          2 ^ 64 + Read (Stats.requests_processed_count stats)
        \<and> 2 ^ 63 \<le> uint (StatsAggregation.requests_processed_count (StatsAggregation_of stats))
        \<and> StatsAggregation.requests_processed_count (StatsAggregation_of stats) \<noteq> 0)"
proof -
  let ?a = "Stats.active_request_count stats"
  let ?p = "Stats.requests_processed_count stats"
  have active: "uint (StatsAggregation.active_request_count (StatsAggregation_of stats)) =
                max 0 (Read ?a)"
    by (simp add: StatsAggregation_of_def uint_NonNegativeRead)
  have clamp: "Read ?a < 0 \<longrightarrow>
               StatsAggregation.active_request_count (StatsAggregation_of stats) = 0"
    by (simp add: StatsAggregation_of_def NonNegativeRead_def)
  have raw: "StatsAggregation.requests_processed_count (StatsAggregation_of stats) =
             size_t_of_signed (Read ?p)"
    by (simp add: StatsAggregation_of_def)
  have huge: "Read ?p < 0 \<longrightarrow>
        uint (StatsAggregation.requests_processed_count (StatsAggregation_of stats)) =
          2 ^ 64 + Read ?p
        \<and> 2 ^ 63 \<le> uint (StatsAggregation.requests_processed_count (StatsAggregation_of stats))
        \<and> StatsAggregation.requests_processed_count (StatsAggregation_of stats) \<noteq> 0"
  proof
    assume neg: "Read ?p < 0"
    have val: "uint (StatsAggregation.requests_processed_count (StatsAggregation_of stats)) =
               2 ^ 64 + Read ?p"
      using uint_size_t_of_signed_negative [OF neg] by (simp add: raw)
    from Read_bounds [of ?p] have big: "(2::int) ^ 63 \<le> 2 ^ 64 + Read ?p"
      by simp
    have nz: "StatsAggregation.requests_processed_count (StatsAggregation_of stats) \<noteq> 0"
    proof
      assume "StatsAggregation.requests_processed_count (StatsAggregation_of stats) = 0"
      then have "uint (StatsAggregation.requests_processed_count (StatsAggregation_of stats)) = 0"
        by simp
      with val big show False by simp
    qed
    from val big nz show "uint (StatsAggregation.requests_processed_count
        (StatsAggregation_of stats)) = 2 ^ 64 + Read ?p
      \<and> 2 ^ 63 \<le> uint (StatsAggregation.requests_processed_count (StatsAggregation_of stats))
      \<and> StatsAggregation.requests_processed_count (StatsAggregation_of stats) \<noteq> 0"
      by simp
  qed
  from active clamp raw huge show ?thesis by blast
qed

theorem StatsAggregation_of_request_counters_witness:
  "Read (Stats.active_request_count Stats_racing) = - 1
   \<and> StatsAggregation.active_request_count (StatsAggregation_of Stats_racing) = 0
   \<and> Read (Stats.requests_processed_count Stats_racing) = - 2
   \<and> uint (StatsAggregation.requests_processed_count (StatsAggregation_of Stats_racing)) =
        18446744073709551614"
proof -
  have a: "Read (Stats.active_request_count Stats_racing) = - 1"
    by (simp add: Stats_racing_def Read_def)
  have p: "Read (Stats.requests_processed_count Stats_racing) = - 2"
    by (simp add: Stats_racing_def Read_def)
  from StatsAggregation_of_request_counters [of Stats_racing] a p show ?thesis
    by (simp add: size_t_of_signed_def)
qed

section \<open>The level of the accounter\<close>

lemma current_apply_call_Start:
  "current' (apply_call acc (Start sz create_time)) = current' acc + sz"
  by (simp add: StartRequest_def)

lemma current_apply_call_Stop:
  "current' (apply_call acc (Stop ctx sz create_time)) = current' acc - sz"
  by (simp add: StopRequest_def)

lemma max_apply_call: "max' (apply_call acc call) = max' acc"
  by (cases call) (simp_all add: StartRequest_def StopRequest_def)

lemma current_foldl_apply_call:
  "current' (foldl apply_call acc calls) =
     current' acc + sum_list (map fst (started calls)) - sum_list (map fst (stopped calls))"
proof (induction calls arbitrary: acc)
  case Nil
  show ?case by simp
next
  case (Cons call calls)
  show ?case
  proof (cases call)
    case (Start sz create_time)
    then show ?thesis
      by (simp add: Cons.IH current_apply_call_Start del: apply_call.simps)
  next
    case (Stop ctx sz create_time)
    then show ?thesis
      by (simp add: Cons.IH current_apply_call_Stop del: apply_call.simps)
  qed
qed

lemma max_foldl_apply_call: "max' (foldl apply_call acc calls) = max' acc"
  by (induction calls arbitrary: acc) (simp_all add: max_apply_call del: apply_call.simps)

lemma sum_list_fst_mset:
  fixes xs ys :: "(size_t \<times> time_point) list"
  assumes "mset xs = mset ys"
  shows "sum_list (map fst xs) = sum_list (map fst ys)"
proof -
  have "sum_list (map fst xs) = sum_mset (image_mset fst (mset xs))"
    by (simp add: sum_mset_sum_list [symmetric])
  also have "\<dots> = sum_mset (image_mset fst (mset ys))"
    by (simp add: assms)
  also have "\<dots> = sum_list (map fst ys)"
    by (simp add: sum_mset_sum_list [symmetric])
  finally show ?thesis .
qed

lemma Guard_lifetime_is_Start_Stop:
  "Guard_ctor create_time sz acc =
     (\<lparr>Guard.create_time' = create_time, size' = sz\<rparr>,
      apply_call acc (Start sz create_time))
   \<and> Guard_dtor ctx (fst (Guard_ctor create_time sz acc)) acc' =
       apply_call acc' (Stop ctx sz create_time)"
  by (simp add: Guard_ctor_def Guard_dtor_def)

text \<open>
  C1.  For every sequence of \<^verbatim>\<open>StartRequest\<close> and \<^verbatim>\<open>StopRequest\<close> calls in which the
  starts and the stops match one to one with the same size (and creation time), in
  whatever order the calls take effect and whatever the sizes are, the level is zero
  after the last call when the accounter was fresh, and in general is what it was
  before the first call.
\<close>

theorem matched_calls_level_zero:
  assumes "all_matched calls"
  shows "GetCurrentLevel (run_calls calls (ResponseDataAccounter_init n)) = 0
         \<and> GetCurrentLevel (run_calls calls acc) = GetCurrentLevel acc"
proof -
  from assms have "sum_list (map fst (started calls)) = sum_list (map fst (stopped calls))"
    unfolding all_matched_def by (rule sum_list_fst_mset)
  then have same: "current' (foldl apply_call a calls) = current' a" for a
    by (simp add: current_foldl_apply_call)
  have "current' (ResponseDataAccounter_init n) = 0"
    by (simp add: ResponseDataAccounter_init_def)
  with same show ?thesis
    by (simp add: GetCurrentLevel_def run_calls_def)
qed

theorem matched_calls_level_zero_witness:
  "all_matched calls_example
   \<and> GetCurrentLevel (run_calls calls_example (ResponseDataAccounter_init 4)) = 0
   \<and> GetCurrentLevel (run_calls (take 7 calls_example) (ResponseDataAccounter_init 4)) = 255"
proof -
  have m: "all_matched calls_example"
    by (simp add: all_matched_def calls_example_def)
  have "GetCurrentLevel (run_calls (take 7 calls_example) (ResponseDataAccounter_init 4)) = 255"
    by (simp add: calls_example_def run_calls_def GetCurrentLevel_def
        ResponseDataAccounter_init_def StartRequest_def StopRequest_def)
  with m matched_calls_level_zero [OF m, where n = 4 and acc = "ResponseDataAccounter_init 4"]
  show ?thesis
    by blast
qed

section \<open>The default ceiling\<close>

text \<open>
  C6.  A freshly constructed accounter has the largest \<^verbatim>\<open>size_t\<close> value,
  \<open>2 ^ 64 - 1\<close>, as its ceiling.  As long as \<^verbatim>\<open>SetMaxLevel\<close> has not been called, that
  is, after any sequence of starts and stops, and for every level that the total could
  hold, the limit is not reached.
\<close>

theorem fresh_accounter_limit_never_reached:
  "GetMaxLevel (ResponseDataAccounter_init n) = - 1
   \<and> unat (GetMaxLevel (ResponseDataAccounter_init n)) = 2 ^ 64 - 1
   \<and> \<not> IsLimitReached ((ResponseDataAccounter_init n)\<lparr>current' := level\<rparr>)
   \<and> \<not> IsLimitReached (run_calls calls (ResponseDataAccounter_init n))"
proof -
  have top: "\<not> (- 1 :: size_t) < w" for w
    by (simp add: not_less)
  have m: "GetMaxLevel (ResponseDataAccounter_init n) = - 1"
    by (simp add: GetMaxLevel_def ResponseDataAccounter_init_def)
  have u: "unat (GetMaxLevel (ResponseDataAccounter_init n)) = 2 ^ 64 - 1"
    by (simp add: m unsigned_minus_1_eq_mask mask_eq_exp_minus_1)
  have l: "\<not> IsLimitReached ((ResponseDataAccounter_init n)\<lparr>current' := level\<rparr>)"
    by (simp add: IsLimitReached_def GetMaxLevel_def GetCurrentLevel_def
        ResponseDataAccounter_init_def top)
  have "max' (run_calls calls (ResponseDataAccounter_init n)) = - 1"
    by (simp add: run_calls_def max_foldl_apply_call ResponseDataAccounter_init_def)
  then have r: "\<not> IsLimitReached (run_calls calls (ResponseDataAccounter_init n))"
    by (simp add: IsLimitReached_def GetMaxLevel_def top)
  from m u l r show ?thesis by blast
qed

section \<open>The payload of a response\<close>

text \<open>
  The call by itself moves nothing: it returns the reference to the payload and leaves
  the object as it is.  The buffer changes when the caller moves from that reference.
\<close>

lemma MoveData_returns_alias:
  "deref r (fst (MoveData r)) = GetData r \<and> snd (MoveData r) = r"
  by (simp add: MoveData_def GetData_def)

lemma take_data_example:
  "take_data ResponseBase_example = (''abc'', ResponseBase_example\<lparr>data' := []\<rparr>)"
  by (simp add: take_data_def MoveData_def ResponseBase_example_def)


end
